theory Spec2Isabelle
  imports Main
begin

section \<open>The Arabic Tutor API: data model\<close>

text \<open>
  The program is \<^verbatim>\<open>src/app.py\<close>: a Flask application with three POST handlers
  (\<^verbatim>\<open>create_checkout\<close>, \<^verbatim>\<open>check_subscription\<close>, \<^verbatim>\<open>chat\<close>), one helper
  (\<^verbatim>\<open>check_user_has_subscription\<close>) and one piece of state, the module-level
  dictionary \<^verbatim>\<open>user_usage\<close>.

  Each handler is a function of the outside world as seen during one request, of the
  request body and of the dictionary; it returns the response, the dictionary afterwards
  and the side effects it performed, in the order in which it performed them.
  Writes to standard output (\<^verbatim>\<open>print\<close>, \<^verbatim>\<open>traceback.print_exc\<close>) are left out.
  The request body is a JSON object whose fields, when present, have the types of the
  documented interface; every field may be absent.
\<close>

subsection \<open>JSON values and responses\<close>

datatype json = JNull | JBool bool | JInt int | JStr string

text \<open>
  A response is what the handler returns to Flask: the dictionary given to
  \<^verbatim>\<open>jsonify\<close>, in the order the source writes its keys, and the status code
  (200 where the source gives none).
\<close>

type_synonym response = "(string \<times> json) list \<times> nat"

definition body :: "response \<Rightarrow> (string \<times> json) list" where
  "body r = fst r"

definition status :: "response \<Rightarrow> nat" where
  "status r = snd r"

text \<open>The value stored under a key of the response body, if the key is there.\<close>

definition field :: "response \<Rightarrow> string \<Rightarrow> json option" where
  "field r k = map_of (body r) k"

subsection \<open>Requests\<close>

text \<open>A chat message: its role and its content.\<close>

type_synonym message = "string \<times> string"

record chat_request =
  messages :: "message list option"
  system :: "string option"
  max_tokens :: "int option"
  user_email :: "string option"

record subscription_request =
  sr_email :: "string option"

record checkout_request =
  cr_email :: "string option"
  cr_plan :: "string option"

subsection \<open>The calendar date of a request\<close>

record date =
  year :: nat
  month :: nat
  day :: nat

text \<open>
  The dates \<^verbatim>\<open>datetime.now()\<close> can give, with the year in the range in which
  \<^verbatim>\<open>%Y\<close> prints exactly four digits on every platform.
\<close>

definition valid_date :: "date \<Rightarrow> bool" where
  "valid_date d \<longleftrightarrow>
     1000 \<le> year d \<and> year d \<le> 9999 \<and> 1 \<le> month d \<and> month d \<le> 12 \<and> 1 \<le> day d \<and> day d \<le> 31"

definition digit :: "nat \<Rightarrow> char" where
  "digit n = ''0123456789'' ! (n mod 10)"

text \<open>\<^verbatim>\<open>strftime('%Y-%m-%d')\<close>: four digits, two digits, two digits, zero padded.\<close>

definition strftime_ymd :: "date \<Rightarrow> string" where
  "strftime_ymd d =
     [digit (year d div 1000), digit (year d div 100), digit (year d div 10), digit (year d)]
     @ ''-'' @ [digit (month d div 10), digit (month d)]
     @ ''-'' @ [digit (day d div 10), digit (day d)]"

subsection \<open>The outside world\<close>

text \<open>
  An exception raised by a library call is the text that \<^verbatim>\<open>str(e)\<close> gives for it.
\<close>

datatype exn = Exn (str: string)

datatype customer = Customer (customer_id: string)

datatype subscription = Subscription (sub_status: string)

text \<open>
  What \<^verbatim>\<open>client.messages.create\<close> does: it raises an \<^verbatim>\<open>anthropic.APIError\<close>, raises
  some other exception, or returns a message whose \<^verbatim>\<open>content\<close> is a list of text
  blocks (the handler sends neither tools nor a thinking budget), given here by their
  \<^verbatim>\<open>text\<close>.
\<close>

datatype completion = APIError string | OtherError string | Message "string list"

record checkout_args =
  price :: string
  success_url :: string
  cancel_url :: string
  customer_email :: "string option"

text \<open>
  The world of one request. Each library call is made at most once in a handler, so a
  function from its arguments to its outcome describes it:
  \<^item> \<open>customer_list email\<close> is \<^verbatim>\<open>stripe.Customer.list(email=email, limit=1).data\<close>;
  \<^item> \<open>subscription_list id\<close> is
    \<^verbatim>\<open>stripe.Subscription.list(customer=id, status='active', limit=1).data\<close>;
  \<^item> \<open>checkout_create args\<close> is the \<^verbatim>\<open>url\<close> of \<^verbatim>\<open>stripe.checkout.Session.create(...)\<close>;
  \<^item> \<open>messages_create max_tokens system messages\<close> is \<^verbatim>\<open>client.messages.create\<close>
    with the fixed model name;
  \<^item> \<open>now\<close> is the date of \<^verbatim>\<open>datetime.now()\<close>;
  \<^item> \<open>environ\<close> is \<^verbatim>\<open>os.environ\<close>.
\<close>

record world =
  customer_list :: "string \<Rightarrow> exn + customer list"
  subscription_list :: "string \<Rightarrow> exn + subscription list"
  checkout_create :: "checkout_args \<Rightarrow> exn + string option"
  messages_create :: "int \<Rightarrow> string \<Rightarrow> message list \<Rightarrow> completion"
  now :: date
  environ :: "string \<rightharpoonup> string"

text \<open>
  The side effects of a handler, in program order: the calls it makes to the payment
  provider and to the completion provider (a call that raises is still a call), and its
  writes to \<^verbatim>\<open>user_usage\<close>.
\<close>

datatype effect =
    StripeCustomerList string
  | StripeSubscriptionList string
  | StripeCheckoutCreate checkout_args
  | UsageStore string int
  | AnthropicCreate int string "message list"

fun is_stripe_call :: "effect \<Rightarrow> bool" where
  "is_stripe_call (StripeCustomerList _) = True"
| "is_stripe_call (StripeSubscriptionList _) = True"
| "is_stripe_call (StripeCheckoutCreate _) = True"
| "is_stripe_call _ = False"

fun is_completion_call :: "effect \<Rightarrow> bool" where
  "is_completion_call (AnthropicCreate _ _ _) = True"
| "is_completion_call _ = False"

fun is_usage_store :: "effect \<Rightarrow> bool" where
  "is_usage_store (UsageStore _ _) = True"
| "is_usage_store _ = False"

subsection \<open>The usage dictionary\<close>

text \<open>\<^verbatim>\<open>user_usage = {}\<close>: from usage key to the count of the day.\<close>

type_synonym usage = "string \<rightharpoonup> int"

text \<open>\<^verbatim>\<open>f"{user_email}:{today}"\<close>\<close>

definition usage_key :: "string \<Rightarrow> string \<Rightarrow> string" where
  "usage_key email today = email @ '':'' @ today"

text \<open>\<^verbatim>\<open>user_usage.get(usage_key, 0)\<close>\<close>

definition usage_get :: "usage \<Rightarrow> string \<Rightarrow> int" where
  "usage_get user_usage k = (case user_usage k of None \<Rightarrow> 0 | Some c \<Rightarrow> c)"

section \<open>The handlers\<close>

subsection \<open>check_user_has_subscription\<close>

text \<open>
  The helper returns a boolean on every path: the \<^verbatim>\<open>try\<close> block covers both calls to
  the payment provider, and \<^verbatim>\<open>except Exception\<close> returns \<^verbatim>\<open>False\<close>.
\<close>

definition check_user_has_subscription :: "world \<Rightarrow> string \<Rightarrow> bool \<times> effect list" where
  "check_user_has_subscription w email =
     (if email = ''anonymous'' then (False, [])
      else case customer_list w email of
        Inl e \<Rightarrow> (False, [StripeCustomerList email])
      | Inr [] \<Rightarrow> (False, [StripeCustomerList email])
      | Inr (customer # _) \<Rightarrow>
          (case subscription_list w (customer_id customer) of
             Inl e \<Rightarrow>
               (False, [StripeCustomerList email, StripeSubscriptionList (customer_id customer)])
           | Inr subscriptions \<Rightarrow>
               (length subscriptions > 0,
                [StripeCustomerList email, StripeSubscriptionList (customer_id customer)])))"

subsection \<open>chat\<close>

text \<open>
  Lines 143 to 161 of the source, the usage limit for free users: either the early
  return with status 429 (\<open>Inl\<close>), or the value of \<^verbatim>\<open>remaining\<close> (\<open>Inr\<close>), with
  the dictionary afterwards and the writes made.
\<close>

definition limit_reached :: response where
  "limit_reached =
     ([(''success'', JBool False),
       (''error'', JStr ''Daily limit reached! Upgrade to Premium for unlimited messages.''),
       (''upgrade_required'', JBool True),
       (''remaining_messages'', JInt 0)], 429)"

definition apply_usage_limits ::
    "world \<Rightarrow> bool \<Rightarrow> string \<Rightarrow> usage \<Rightarrow> (response + json) \<times> usage \<times> effect list" where
  "apply_usage_limits w has_subscription email user_usage =
     (if \<not> has_subscription \<and> email \<noteq> ''anonymous'' then
        let today = strftime_ymd (now w);
            key = usage_key email today;
            current_usage = usage_get user_usage key
        in if current_usage \<ge> 10 then (Inl limit_reached, user_usage, [])
           else let user_usage' = user_usage(key \<mapsto> current_usage + 1)
                in (Inr (JInt (10 - usage_get user_usage' key)), user_usage',
                    [UsageStore key (current_usage + 1)])
      else (Inr (JStr ''unlimited''), user_usage, []))"

text \<open>
  Lines 163 to 199: the call to the completion provider and the response built from its
  outcome. Reading \<^verbatim>\<open>response.content[0]\<close> of an empty content raises IndexError, which
  \<^verbatim>\<open>except Exception\<close> turns into a 500 like any other exception.
\<close>

definition model_name :: string where
  "model_name = ''claude-sonnet-4-5-20250929''"

definition chat_success :: "string \<Rightarrow> json \<Rightarrow> response" where
  "chat_success assistant_message remaining =
     ([(''success'', JBool True),
       (''message'', JStr assistant_message),
       (''model'', JStr model_name),
       (''remaining_messages'', remaining)], 200)"

definition complete :: "world \<Rightarrow> int \<Rightarrow> string \<Rightarrow> message list \<Rightarrow> json \<Rightarrow> response" where
  "complete w mt sys msgs remaining =
     (case messages_create w mt sys msgs of
        APIError e \<Rightarrow>
          ([(''success'', JBool False), (''error'', JStr (''Anthropic API error: '' @ e))], 500)
      | OtherError e \<Rightarrow>
          ([(''success'', JBool False), (''error'', JStr (''Server error: '' @ e))], 500)
      | Message [] \<Rightarrow>
          ([(''success'', JBool False),
            (''error'', JStr (''Server error: '' @ ''list index out of range''))], 500)
      | Message (assistant_message # _) \<Rightarrow> chat_success assistant_message remaining)"

text \<open>
  The fields of the body with their defaults: \<^verbatim>\<open>data.get('messages', [])\<close>,
  \<^verbatim>\<open>data.get('system', '')\<close>, \<^verbatim>\<open>data.get('max_tokens', 1024)\<close> and
  \<^verbatim>\<open>data.get('user_email', 'anonymous')\<close>.
\<close>

definition req_messages :: "chat_request \<Rightarrow> message list" where
  "req_messages data = (case messages data of None \<Rightarrow> [] | Some ms \<Rightarrow> ms)"

definition req_system :: "chat_request \<Rightarrow> string" where
  "req_system data = (case system data of None \<Rightarrow> [] | Some s \<Rightarrow> s)"

definition req_max_tokens :: "chat_request \<Rightarrow> int" where
  "req_max_tokens data = (case max_tokens data of None \<Rightarrow> 1024 | Some n \<Rightarrow> n)"

definition req_user_email :: "chat_request \<Rightarrow> string" where
  "req_user_email data = (case user_email data of None \<Rightarrow> ''anonymous'' | Some e \<Rightarrow> e)"

definition no_messages :: response where
  "no_messages = ([(''error'', JStr ''No messages provided'')], 400)"

definition chat :: "world \<Rightarrow> chat_request \<Rightarrow> usage \<Rightarrow> response \<times> usage \<times> effect list" where
  "chat w data user_usage =
     (let msgs = req_messages data;
          system_prompt = req_system data;
          mt = req_max_tokens data;
          email = req_user_email data
      in if msgs = [] then (no_messages, user_usage, [])
         else
           let (has_subscription, fx_sub) = check_user_has_subscription w email;
               (gate, user_usage', fx_gate) =
                  apply_usage_limits w has_subscription email user_usage
           in case gate of
                Inl rejected \<Rightarrow> (rejected, user_usage', fx_sub @ fx_gate)
              | Inr remaining \<Rightarrow>
                  (complete w mt system_prompt msgs remaining, user_usage',
                   fx_sub @ fx_gate @ [AnthropicCreate mt system_prompt msgs]))"

subsection \<open>check_subscription\<close>

text \<open>\<^verbatim>\<open>not user_email\<close> holds of a missing field and of the empty string.\<close>

definition falsy :: "string option \<Rightarrow> bool" where
  "falsy s \<longleftrightarrow> s = None \<or> s = Some []"

text \<open>Lines 97 to 106: the answer for an email that is no customer of the provider.\<close>

definition free_allowance :: "world \<Rightarrow> string \<Rightarrow> usage \<Rightarrow> response" where
  "free_allowance w email user_usage =
     (let today = strftime_ymd (now w);
          key = usage_key email today;
          current_usage = usage_get user_usage key;
          remaining = max 0 (10 - current_usage)
      in ([(''has_subscription'', JBool False), (''remaining_messages'', JInt remaining)], 200))"

definition check_subscription ::
    "world \<Rightarrow> subscription_request \<Rightarrow> usage \<Rightarrow> response \<times> effect list" where
  "check_subscription w data user_usage =
     (if falsy (sr_email data) then
        (([(''has_subscription'', JBool False), (''remaining_messages'', JInt 10)], 200), [])
      else
        let email = the (sr_email data) in
        case customer_list w email of
          Inl e \<Rightarrow> (([(''error'', JStr (str e))], 500), [StripeCustomerList email])
        | Inr [] \<Rightarrow> (free_allowance w email user_usage, [StripeCustomerList email])
        | Inr (customer # _) \<Rightarrow>
            (case subscription_list w (customer_id customer) of
               Inl e \<Rightarrow>
                 (([(''error'', JStr (str e))], 500),
                  [StripeCustomerList email, StripeSubscriptionList (customer_id customer)])
             | Inr subscriptions \<Rightarrow>
                 (let has_active = (length subscriptions > 0)
                  in (([(''has_subscription'', JBool has_active),
                        (''subscription_status'',
                           case subscriptions of [] \<Rightarrow> JNull | s # _ \<Rightarrow> JStr (sub_status s)),
                        (''remaining_messages'',
                           if has_active then JStr ''unlimited'' else JInt 0)], 200),
                      [StripeCustomerList email,
                       StripeSubscriptionList (customer_id customer)]))))"

subsection \<open>create_checkout\<close>

text \<open>
  \<^verbatim>\<open>price_ids.get(plan)\<close>: the two plans name two environment variables, either of
  which may be unset.
\<close>

definition price_ids :: "world \<Rightarrow> string \<Rightarrow> string option" where
  "price_ids w plan =
     (if plan = ''premium'' then environ w ''STRIPE_PRICE_PREMIUM''
      else if plan = ''premium_voice'' then environ w ''STRIPE_PRICE_PREMIUM_VOICE''
      else None)"

text \<open>\<^verbatim>\<open>data.get('plan', 'premium')\<close>\<close>

definition req_plan :: "checkout_request \<Rightarrow> string" where
  "req_plan data = (case cr_plan data of None \<Rightarrow> ''premium'' | Some p \<Rightarrow> p)"

definition invalid_plan :: response where
  "invalid_plan = ([(''error'', JStr ''Invalid plan selected'')], 400)"

definition create_checkout :: "world \<Rightarrow> checkout_request \<Rightarrow> response \<times> effect list" where
  "create_checkout w data =
     (let email = cr_email data;
          plan = req_plan data;
          price_id = price_ids w plan
      in if falsy price_id then (invalid_plan, [])
         else
           let domain = (case environ w ''FRONTEND_URL'' of
                           None \<Rightarrow> ''http://localhost:8000'' | Some d \<Rightarrow> d);
               args = \<lparr>price = the price_id,
                       success_url = domain @ ''/success.html?session_id={CHECKOUT_SESSION_ID}'',
                       cancel_url = domain,
                       customer_email = email\<rparr>
           in case checkout_create w args of
                Inl e \<Rightarrow> (([(''error'', JStr (str e))], 500), [StripeCheckoutCreate args])
              | Inr url \<Rightarrow>
                  (([(''checkout_url'', case url of None \<Rightarrow> JNull | Some u \<Rightarrow> JStr u)], 200),
                   [StripeCheckoutCreate args]))"

subsection \<open>The process: requests served one after the other\<close>

text \<open>
  The dictionary lives as long as the process and starts empty. \<open>serve\<close> threads it
  through a list of chat requests, each with the world it is served in, and collects
  each response with its effects.
\<close>

fun serve ::
    "usage \<Rightarrow> (world \<times> chat_request) list \<Rightarrow> (response \<times> effect list) list \<times> usage" where
  "serve user_usage [] = ([], user_usage)"
| "serve user_usage ((w, data) # rest) =
     (let (r, user_usage', fx) = chat w data user_usage;
          (outs, final) = serve user_usage' rest
      in ((r, fx) # outs, final))"

section \<open>Vocabulary of the properties\<close>

text \<open>The three components of what the chat handler returns.\<close>

definition response_of :: "response \<times> usage \<times> effect list \<Rightarrow> response" where
  "response_of out = fst out"

definition usage_of :: "response \<times> usage \<times> effect list \<Rightarrow> usage" where
  "usage_of out = fst (snd out)"

definition effects_of :: "response \<times> usage \<times> effect list \<Rightarrow> effect list" where
  "effects_of out = snd (snd out)"

text \<open>
  What the payment provider holds for an email in a world: an active subscription of
  the first customer found, or a lookup that raises at either of its two calls.
\<close>

definition has_active_subscription :: "world \<Rightarrow> string \<Rightarrow> bool" where
  "has_active_subscription w email =
     (case customer_list w email of
        Inr (c # _) \<Rightarrow>
          (case subscription_list w (customer_id c) of Inr (_ # _) \<Rightarrow> True | _ \<Rightarrow> False)
      | _ \<Rightarrow> False)"

definition lookup_fails :: "world \<Rightarrow> string \<Rightarrow> bool" where
  "lookup_fails w email =
     (case customer_list w email of
        Inl _ \<Rightarrow> True
      | Inr [] \<Rightarrow> False
      | Inr (c # _) \<Rightarrow>
          (case subscription_list w (customer_id c) of Inl _ \<Rightarrow> True | Inr _ \<Rightarrow> False))"

text \<open>
  The completion fails: the provider raises, or returns a message with no content
  block. The handler then answers 500.
\<close>

definition completion_fails :: "world \<Rightarrow> chat_request \<Rightarrow> bool" where
  "completion_fails w data =
     (case messages_create w (req_max_tokens data) (req_system data) (req_messages data) of
        Message (_ # _) \<Rightarrow> False
      | _ \<Rightarrow> True)"

text \<open>
  A chat request that reaches the usage limit of free users: it has messages, its user
  is \<open>email\<close>, it is served on the day that prints as \<open>today\<close>, and the subscription
  check says no.
\<close>

definition metered :: "string \<Rightarrow> string \<Rightarrow> world \<times> chat_request \<Rightarrow> bool" where
  "metered email today x =
     (case x of (w, data) \<Rightarrow>
        req_messages data \<noteq> [] \<and> req_user_email data = email \<and> email \<noteq> ''anonymous''
        \<and> strftime_ymd (now w) = today
        \<and> \<not> fst (check_user_has_subscription w email))"

section \<open>Sample worlds and requests\<close>

text \<open>Concrete inputs on which the theorems below are instantiated.\<close>

definition day1 :: date where
  "day1 = \<lparr>year = 2025, month = 3, day = 9\<rparr>"

definition day2 :: date where
  "day2 = \<lparr>year = 2025, month = 3, day = 10\<rparr>"

text \<open>A world where nobody is a customer and the completion provider answers.\<close>

definition free_world :: world where
  "free_world =
     \<lparr>customer_list = (\<lambda>_. Inr []),
      subscription_list = (\<lambda>_. Inr []),
      checkout_create = (\<lambda>_. Inr (Some ''https://checkout.example/s1'')),
      messages_create = (\<lambda>_ _ _. Message [''marhaban'']),
      now = day1,
      environ = [''STRIPE_PRICE_PREMIUM'' \<mapsto> ''price_1'']\<rparr>"

text \<open>The same world with the completion provider failing.\<close>

definition failing_world :: world where
  "failing_world = free_world\<lparr>messages_create := (\<lambda>_ _ _. APIError ''overloaded'')\<rparr>"

text \<open>A world where everybody is a customer with an active subscription.\<close>

definition subscribed_world :: world where
  "subscribed_world =
     free_world\<lparr>customer_list := (\<lambda>_. Inr [Customer ''cus_1'']),
                 subscription_list := (\<lambda>_. Inr [Subscription ''active''])\<rparr>"

text \<open>A world where everybody is a customer without an active subscription.\<close>

definition lapsed_world :: world where
  "lapsed_world = free_world\<lparr>customer_list := (\<lambda>_. Inr [Customer ''cus_1''])\<rparr>"

text \<open>A world where the payment provider is down.\<close>

definition outage_world :: world where
  "outage_world = free_world\<lparr>customer_list := (\<lambda>_. Inl (Exn ''connection refused''))\<rparr>"

text \<open>The first world, one day later.\<close>

definition next_day_world :: world where
  "next_day_world = free_world\<lparr>now := day2\<rparr>"

definition hello :: chat_request where
  "hello =
     \<lparr>messages = Some [(''user'', ''salam'')], system = None, max_tokens = None,
      user_email = Some ''a@x.com''\<rparr>"

definition hello_anonymous :: chat_request where
  "hello_anonymous = hello\<lparr>user_email := Some ''anonymous''\<rparr>"

definition hello_no_email :: chat_request where
  "hello_no_email = hello\<lparr>user_email := None\<rparr>"

definition ask :: subscription_request where
  "ask = \<lparr>sr_email = Some ''a@x.com''\<rparr>"

text \<open>A dictionary in which the sample user has used three messages on the first day.\<close>

definition three_used :: usage where
  "three_used = [''a@x.com:2025-03-09'' \<mapsto> 3]"

definition gold_checkout :: checkout_request where
  "gold_checkout = \<lparr>cr_email = Some ''a@x.com'', cr_plan = Some ''gold''\<rparr>"

section \<open>Properties\<close>

subsection \<open>Usage keys\<close>

lemma length_strftime_ymd: "length (strftime_ymd d) = 10"
  by (simp add: strftime_ymd_def)

lemma usage_key_eq_iff:
  "length t = length t' \<Longrightarrow> usage_key e t = usage_key e' t' \<longleftrightarrow> e = e' \<and> t = t'"
  by (auto simp: usage_key_def)

lemma usage_key_strftime_eq_iff:
  "usage_key e (strftime_ymd d) = usage_key e' (strftime_ymd d') \<longleftrightarrow>
     e = e' \<and> strftime_ymd d = strftime_ymd d'"
  by (rule usage_key_eq_iff) (simp add: length_strftime_ymd)

text \<open>Distinct dates print differently, so a key determines the user and the date.\<close>

lemma digit_inj: "a < 10 \<Longrightarrow> b < 10 \<Longrightarrow> digit a = digit b \<Longrightarrow> a = b"
proof -
  assume a: "a < 10" and b: "b < 10" and eq: "digit a = digit b"
  have d: "distinct ''0123456789''" by simp
  have "''0123456789'' ! a = ''0123456789'' ! b" using eq a b by (simp add: digit_def)
  with d a b show "a = b" by (simp add: nth_eq_iff_index_eq)
qed

lemma digit_mod: "digit a = digit b \<Longrightarrow> a mod 10 = b mod 10"
  using digit_inj [of "a mod 10" "b mod 10"] by (simp add: digit_def)

lemma last_digit_step:
  fixes a b :: nat
  assumes "a div 10 = b div 10" and "digit a = digit b"
  shows "a = b"
proof -
  have "a mod 10 = b mod 10" using assms(2) by (rule digit_mod)
  with assms(1) show ?thesis by (metis div_mult_mod_eq)
qed

lemma two_digits_inj:
  fixes a b :: nat
  assumes "a < 100" "b < 100" "digit (a div 10) = digit (b div 10)" "digit a = digit b"
  shows "a = b"
proof -
  have "a div 10 < 10" "b div 10 < 10" using assms(1,2) by simp_all
  then have "a div 10 = b div 10" using assms(3) digit_inj by blast
  then show ?thesis using assms(4) by (rule last_digit_step)
qed

lemma four_digits_inj:
  fixes a b :: nat
  assumes "a < 10000" "b < 10000"
    and "digit (a div 1000) = digit (b div 1000)" "digit (a div 100) = digit (b div 100)"
    and "digit (a div 10) = digit (b div 10)" "digit a = digit b"
  shows "a = b"
proof -
  have "a div 1000 < 10" "b div 1000 < 10" using assms(1,2) by simp_all
  then have t: "a div 1000 = b div 1000" using assms(3) digit_inj by blast
  have "a div 100 div 10 = a div 1000" "b div 100 div 10 = b div 1000"
    by (simp_all add: div_mult2_eq [symmetric])
  with t have "a div 100 div 10 = b div 100 div 10" by simp
  then have h: "a div 100 = b div 100" using assms(4) by (rule last_digit_step)
  have "a div 10 div 10 = a div 100" "b div 10 div 10 = b div 100"
    by (simp_all add: div_mult2_eq [symmetric])
  with h have "a div 10 div 10 = b div 10 div 10" by simp
  then have "a div 10 = b div 10" using assms(5) by (rule last_digit_step)
  then show ?thesis using assms(6) by (rule last_digit_step)
qed

lemma strftime_ymd_inj:
  assumes "valid_date d" "valid_date d'" "strftime_ymd d = strftime_ymd d'"
  shows "d = d'"
proof -
  from assms(3) have
    y: "digit (year d div 1000) = digit (year d' div 1000)"
       "digit (year d div 100) = digit (year d' div 100)"
       "digit (year d div 10) = digit (year d' div 10)" "digit (year d) = digit (year d')"
    and m: "digit (month d div 10) = digit (month d' div 10)" "digit (month d) = digit (month d')"
    and dd: "digit (day d div 10) = digit (day d' div 10)" "digit (day d) = digit (day d')"
    by (simp_all add: strftime_ymd_def)
  have "month d = month d'"
    using m assms(1,2) by (intro two_digits_inj) (simp_all add: valid_date_def)
  moreover have "day d = day d'"
    using dd assms(1,2) by (intro two_digits_inj) (simp_all add: valid_date_def)
  moreover have "year d = year d'"
    using y assms(1,2) by (intro four_digits_inj) (simp_all add: valid_date_def)
  ultimately show ?thesis by simp
qed

lemma usage_key_date_eq_iff:
  "valid_date d \<Longrightarrow> valid_date d' \<Longrightarrow>
     usage_key e (strftime_ymd d) = usage_key e' (strftime_ymd d') \<longleftrightarrow> e = e' \<and> d = d'"
  using strftime_ymd_inj by (auto simp: usage_key_strftime_eq_iff)

subsection \<open>The paths of the chat handler\<close>

lemma chat_no_messages:
  "req_messages data = [] \<Longrightarrow> chat w data u = (no_messages, u, [])"
  by (simp add: chat_def)

lemma chat_unmetered:
  assumes "req_messages data \<noteq> []"
    and "fst (check_user_has_subscription w (req_user_email data))
         \<or> req_user_email data = ''anonymous''"
  shows "chat w data u =
     (complete w (req_max_tokens data) (req_system data) (req_messages data) (JStr ''unlimited''),
      u,
      snd (check_user_has_subscription w (req_user_email data))
        @ [AnthropicCreate (req_max_tokens data) (req_system data) (req_messages data)])"
  using assms by (auto simp: chat_def apply_usage_limits_def Let_def split: prod.splits)

lemma chat_metered_under:
  assumes "req_messages data \<noteq> []"
    and "\<not> fst (check_user_has_subscription w (req_user_email data))"
    and "req_user_email data \<noteq> ''anonymous''"
    and "k = usage_key (req_user_email data) (strftime_ymd (now w))"
    and "usage_get u k < 10"
  shows "chat w data u =
     (complete w (req_max_tokens data) (req_system data) (req_messages data)
        (JInt (10 - (usage_get u k + 1))),
      u(k \<mapsto> usage_get u k + 1),
      snd (check_user_has_subscription w (req_user_email data))
        @ [UsageStore k (usage_get u k + 1),
           AnthropicCreate (req_max_tokens data) (req_system data) (req_messages data)])"
  using assms
  by (auto simp: chat_def apply_usage_limits_def Let_def usage_get_def split: prod.splits)

lemma chat_metered_over:
  assumes "req_messages data \<noteq> []"
    and "\<not> fst (check_user_has_subscription w (req_user_email data))"
    and "req_user_email data \<noteq> ''anonymous''"
    and "k = usage_key (req_user_email data) (strftime_ymd (now w))"
    and "10 \<le> usage_get u k"
  shows "chat w data u =
     (limit_reached, u, snd (check_user_has_subscription w (req_user_email data)))"
  using assms by (auto simp: chat_def apply_usage_limits_def Let_def split: prod.splits)

lemma check_effects_stripe:
  "x \<in> set (snd (check_user_has_subscription w e)) \<Longrightarrow> is_stripe_call x"
  by (auto simp: check_user_has_subscription_def split: sum.splits list.splits if_splits)

lemma check_anonymous: "check_user_has_subscription w ''anonymous'' = (False, [])"
  by (simp add: check_user_has_subscription_def)

lemma complete_success:
  "messages_create w mt sys msgs = Message (t # ts) \<Longrightarrow>
     complete w mt sys msgs remaining = chat_success t remaining"
  by (simp add: complete_def)

lemma complete_failure:
  "completion_fails w data \<Longrightarrow>
     status (complete w (req_max_tokens data) (req_system data) (req_messages data) remaining) = 500"
  by (auto simp: completion_fails_def complete_def status_def split: completion.splits list.splits)

lemma complete_status:
  "status (complete w mt sys msgs remaining) = 200 \<or> status (complete w mt sys msgs remaining) = 500"
  by (auto simp: complete_def status_def chat_success_def split: completion.splits list.splits)

lemma complete_remaining:
  "field (complete w mt sys msgs remaining) ''remaining_messages'' = Some v \<Longrightarrow> v = remaining"
  by (auto simp: complete_def field_def body_def chat_success_def split: completion.splits list.splits)

lemma check_active:
  "has_active_subscription w email \<Longrightarrow> email \<noteq> ''anonymous'' \<Longrightarrow>
     fst (check_user_has_subscription w email)"
  by (auto simp: has_active_subscription_def check_user_has_subscription_def
           split: sum.splits list.splits)

lemma check_fails:
  "lookup_fails w email \<Longrightarrow> \<not> fst (check_user_has_subscription w email)"
  by (auto simp: lookup_fails_def check_user_has_subscription_def
           split: sum.splits list.splits)

lemma stripe_call_not_store: "is_stripe_call x \<Longrightarrow> \<not> is_usage_store x"
  by (cases x) simp_all

lemma check_effects_no_store:
  "\<not> list_ex is_usage_store (snd (check_user_has_subscription w e))"
  using check_effects_stripe [of _ w e] stripe_call_not_store by (auto simp: list_ex_iff)

lemma limit_reached_fields:
  "status limit_reached = 429"
  "field limit_reached ''remaining_messages'' = Some (JInt 0)"
  "field limit_reached ''upgrade_required'' = Some (JBool True)"
  by (simp_all add: limit_reached_def status_def field_def body_def)

lemma chat_success_fields:
  "status (chat_success t r) = 200"
  "field (chat_success t r) ''remaining_messages'' = Some r"
  "field (chat_success t r) ''success'' = Some (JBool True)"
  "field (chat_success t r) ''message'' = Some (JStr t)"
  by (simp_all add: chat_success_def status_def field_def body_def)

lemma stripe_call_not_completion: "is_stripe_call x \<Longrightarrow> \<not> is_completion_call x"
  by (cases x) simp_all

lemma check_effects_no_completion:
  "\<not> list_ex is_completion_call (snd (check_user_has_subscription w e))"
  using check_effects_stripe [of _ w e] stripe_call_not_completion by (auto simp: list_ex_iff)

subsection \<open>The usage dictionary along a run\<close>

text \<open>
  The only write of the chat handler is the increment of the key of its own user and
  day, on the metered path below the limit. Since the day is printed with ten
  characters, a key determines its user and its day, and the count under a key moves
  only with the metered requests of that user on that day.
\<close>

lemma chat_usage:
  "usage_of (chat w data u) =
     (if metered (req_user_email data) (strftime_ymd (now w)) (w, data)
         \<and> usage_get u (usage_key (req_user_email data) (strftime_ymd (now w))) < 10
      then u(usage_key (req_user_email data) (strftime_ymd (now w)) \<mapsto>
               usage_get u (usage_key (req_user_email data) (strftime_ymd (now w))) + 1)
      else u)"
proof (cases "req_messages data = []")
  case True
  then show ?thesis by (simp add: chat_no_messages usage_of_def metered_def)
next
  case False
  note msgs = this
  show ?thesis
  proof (cases "fst (check_user_has_subscription w (req_user_email data))
                \<or> req_user_email data = ''anonymous''")
    case True
    from chat_unmetered [OF msgs True, of u] True show ?thesis
      by (auto simp: usage_of_def metered_def)
  next
    case False
    then have m: "metered (req_user_email data) (strftime_ymd (now w)) (w, data)"
      using msgs by (simp add: metered_def)
    show ?thesis
    proof (cases "usage_get u (usage_key (req_user_email data) (strftime_ymd (now w))) < 10")
      case True
      with chat_metered_under [OF msgs _ _ refl, of w u] False m show ?thesis
        by (simp add: usage_of_def)
    next
      case over: False
      with chat_metered_over [OF msgs _ _ refl, of w u] False m show ?thesis
        by (simp add: usage_of_def)
    qed
  qed
qed

lemma metered_key:
  "metered e (strftime_ymd d) (w, data) \<longleftrightarrow>
     metered (req_user_email data) (strftime_ymd (now w)) (w, data)
     \<and> usage_key (req_user_email data) (strftime_ymd (now w)) = usage_key e (strftime_ymd d)"
  by (auto simp: metered_def usage_key_strftime_eq_iff)

lemma chat_count:
  "usage_get (usage_of (chat w data u)) (usage_key e (strftime_ymd d)) =
     (if metered e (strftime_ymd d) (w, data) \<and> usage_get u (usage_key e (strftime_ymd d)) < 10
      then usage_get u (usage_key e (strftime_ymd d)) + 1
      else usage_get u (usage_key e (strftime_ymd d)))"
  unfolding chat_usage metered_key [of e d]
  by (auto simp: usage_get_def)

lemma chat_entry_frame:
  "\<not> metered e (strftime_ymd d) (w, data) \<Longrightarrow>
     usage_of (chat w data u) (usage_key e (strftime_ymd d)) = u (usage_key e (strftime_ymd d))"
  unfolding chat_usage metered_key [of e d]
  by auto

lemma serve_Cons:
  "serve u ((w, data) # rest) =
     ((response_of (chat w data u), effects_of (chat w data u))
        # fst (serve (usage_of (chat w data u)) rest),
      snd (serve (usage_of (chat w data u)) rest))"
  by (simp add: response_of_def usage_of_def effects_of_def split: prod.splits)

lemma serve_count:
  "usage_get u (usage_key e (strftime_ymd d)) \<le> 10 \<Longrightarrow>
   usage_get (snd (serve u rs)) (usage_key e (strftime_ymd d)) =
     min 10 (usage_get u (usage_key e (strftime_ymd d))
             + int (length (filter (metered e (strftime_ymd d)) rs)))"
proof (induction rs arbitrary: u)
  case Nil
  then show ?case by simp
next
  case (Cons x rs)
  obtain w data where x: "x = (w, data)" by (cases x)
  let ?k = "usage_key e (strftime_ymd d)"
  let ?u' = "usage_of (chat w data u)"
  have le: "usage_get ?u' ?k \<le> 10"
    using Cons.prems by (simp add: chat_count)
  show ?case
    using Cons.IH [OF le] Cons.prems
    by (auto simp add: x serve_Cons chat_count min_def simp del: serve.simps)
qed

lemma serve_entry_frame:
  "filter (metered e (strftime_ymd d)) rs = [] \<Longrightarrow>
   snd (serve u rs) (usage_key e (strftime_ymd d)) = u (usage_key e (strftime_ymd d))"
proof (induction rs arbitrary: u)
  case Nil
  then show ?case by simp
next
  case (Cons x rs)
  obtain w data where x: "x = (w, data)" by (cases x)
  from Cons.prems have n: "\<not> metered e (strftime_ymd d) (w, data)"
    and r: "filter (metered e (strftime_ymd d)) rs = []"
    by (auto simp: x split: if_splits)
  show ?case
    using Cons.IH [OF r, of "usage_of (chat w data u)"] chat_entry_frame [OF n, of u]
    by (simp add: x serve_Cons del: serve.simps)
qed

lemma chat_anonymous:
  assumes "req_user_email data = ''anonymous''"
  shows "usage_of (chat w data u) = u"
    and "status (response_of (chat w data u)) \<noteq> 429"
    and "\<not> list_ex is_usage_store (effects_of (chat w data u))"
    and "\<not> list_ex is_stripe_call (effects_of (chat w data u))"
proof -
  have c: "chat w data u =
     (if req_messages data = [] then (no_messages, u, [])
      else (complete w (req_max_tokens data) (req_system data) (req_messages data)
              (JStr ''unlimited''), u,
            [AnthropicCreate (req_max_tokens data) (req_system data) (req_messages data)]))"
    using chat_unmetered [of data w u] chat_no_messages [of data w u] assms
    by (simp add: check_anonymous)
  have s: "status (complete w (req_max_tokens data) (req_system data) (req_messages data)
              (JStr ''unlimited'')) \<noteq> 429"
    using complete_status [of w "req_max_tokens data" "req_system data" "req_messages data"
        "JStr ''unlimited''"] by auto
  show "usage_of (chat w data u) = u" by (simp add: c usage_of_def)
  show "status (response_of (chat w data u)) \<noteq> 429"
    using s by (simp add: c response_of_def no_messages_def status_def)
  show "\<not> list_ex is_usage_store (effects_of (chat w data u))"
    by (simp add: c effects_of_def)
  show "\<not> list_ex is_stripe_call (effects_of (chat w data u))"
    by (simp add: c effects_of_def)
qed

lemma length_serve: "length (fst (serve u rs)) = length rs"
proof (induction rs arbitrary: u)
  case Nil
  then show ?case by simp
next
  case (Cons x rs)
  obtain w data where x: "x = (w, data)" by (cases x)
  show ?case using Cons.IH by (simp add: x serve_Cons del: serve.simps)
qed

lemma serve_nth:
  "i < length rs \<Longrightarrow>
     \<exists>u'. fst (serve u rs) ! i =
            (response_of (chat (fst (rs ! i)) (snd (rs ! i)) u'),
             effects_of (chat (fst (rs ! i)) (snd (rs ! i)) u'))"
proof (induction rs arbitrary: u i)
  case Nil
  then show ?case by simp
next
  case (Cons x rs)
  obtain w data where x: "x = (w, data)" by (cases x)
  show ?case
  proof (cases i)
    case 0
    then show ?thesis by (auto simp: x serve_Cons simp del: serve.simps)
  next
    case (Suc j)
    with Cons.prems have "j < length rs" by simp
    from Cons.IH [OF this, of "usage_of (chat w data u)"] Suc show ?thesis
      by (simp add: x serve_Cons del: serve.simps)
  qed
qed

lemma not_metered_anonymous: "\<not> metered ''anonymous'' t x"
  by (simp add: metered_def split: prod.splits)

subsection \<open>The sample inputs\<close>

lemma sample_keys:
  "usage_key ''a@x.com'' (strftime_ymd day1) = ''a@x.com:2025-03-09''"
  "usage_key ''a@x.com'' (strftime_ymd day2) = ''a@x.com:2025-03-10''"
  by (simp_all add: usage_key_def strftime_ymd_def digit_def day1_def day2_def)

lemma sample_hello:
  "req_user_email hello = ''a@x.com''" "req_messages hello = [(''user'', ''salam'')]"
  "req_system hello = []" "req_max_tokens hello = 1024"
  by (simp_all add: hello_def req_user_email_def req_messages_def req_system_def
        req_max_tokens_def)

lemma check_free_world:
  "check_user_has_subscription free_world ''a@x.com'' = (False, [StripeCustomerList ''a@x.com''])"
  by (simp add: check_user_has_subscription_def free_world_def)

lemma sample_metered:
  "metered ''a@x.com'' (strftime_ymd day1) (free_world, hello)"
  "metered ''a@x.com'' (strftime_ymd day2) (next_day_world, hello)"
  "\<not> metered ''a@x.com'' (strftime_ymd day2) (free_world, hello)"
  by (simp_all add: metered_def sample_hello check_user_has_subscription_def free_world_def
        next_day_world_def strftime_ymd_def digit_def day1_def day2_def)

subsection \<open>Checkout\<close>

text \<open>
  Claim C8. When the plan of a create-checkout request does not resolve to a configured
  price identifier (the plan is neither of the two known ones, or its environment
  variable is unset or empty), the handler answers 400 with the error
  \<^verbatim>\<open>Invalid plan selected\<close> and performs no effect: the payment provider is not called.
\<close>

theorem invalid_plan_rejected:
  assumes "falsy (price_ids w (req_plan data))"
  shows "create_checkout w data = (invalid_plan, [])
         \<and> status invalid_plan = 400
         \<and> field invalid_plan ''error'' = Some (JStr ''Invalid plan selected'')"
  using assms by (simp add: create_checkout_def Let_def invalid_plan_def status_def field_def body_def)

theorem invalid_plan_rejected_witness:
  "falsy (price_ids free_world (req_plan gold_checkout))
   \<and> create_checkout free_world gold_checkout = (invalid_plan, [])"
proof -
  have h: "falsy (price_ids free_world (req_plan gold_checkout))"
    by (simp add: falsy_def price_ids_def req_plan_def gold_checkout_def)
  from invalid_plan_rejected [OF h] h show ?thesis by simp
qed

subsection \<open>Failure of the subscription lookup\<close>

text \<open>
  Claim C6. When the lookup at the payment provider raises, at the customer search or at
  the subscription search, \<^verbatim>\<open>check_user_has_subscription\<close> answers \<^verbatim>\<open>False\<close> and
  nothing is raised. A chat request of that user, with messages, is then served as a
  free-tier request: below the limit it is counted and sent to the completion provider,
  at the limit it gets the 429 answer, and in neither case an error of the lookup.
\<close>

theorem lookup_failure_is_no_subscription:
  assumes "lookup_fails w email"
  shows "\<not> fst (check_user_has_subscription w email)
     \<and> (req_user_email data = email \<and> email \<noteq> ''anonymous'' \<and> req_messages data \<noteq> [] \<longrightarrow>
          chat w data u =
            (let k = usage_key email (strftime_ymd (now w)) in
             if usage_get u k < 10 then
               (complete w (req_max_tokens data) (req_system data) (req_messages data)
                  (JInt (10 - (usage_get u k + 1))),
                u(k \<mapsto> usage_get u k + 1),
                snd (check_user_has_subscription w email)
                  @ [UsageStore k (usage_get u k + 1),
                     AnthropicCreate (req_max_tokens data) (req_system data) (req_messages data)])
             else (limit_reached, u, snd (check_user_has_subscription w email))))"
proof -
  have no: "\<not> fst (check_user_has_subscription w email)"
    using assms by (rule check_fails)
  show ?thesis
  proof (intro conjI impI)
    show "\<not> fst (check_user_has_subscription w email)" by (rule no)
  next
    assume a: "req_user_email data = email \<and> email \<noteq> ''anonymous'' \<and> req_messages data \<noteq> []"
    show "chat w data u =
            (let k = usage_key email (strftime_ymd (now w)) in
             if usage_get u k < 10 then
               (complete w (req_max_tokens data) (req_system data) (req_messages data)
                  (JInt (10 - (usage_get u k + 1))),
                u(k \<mapsto> usage_get u k + 1),
                snd (check_user_has_subscription w email)
                  @ [UsageStore k (usage_get u k + 1),
                     AnthropicCreate (req_max_tokens data) (req_system data) (req_messages data)])
             else (limit_reached, u, snd (check_user_has_subscription w email)))"
    proof (cases "usage_get u (usage_key email (strftime_ymd (now w))) < 10")
      case True
      with a no chat_metered_under [of data w "usage_key email (strftime_ymd (now w))" u]
      show ?thesis by (simp add: Let_def)
    next
      case False
      with a no chat_metered_over [of data w "usage_key email (strftime_ymd (now w))" u]
      show ?thesis by (simp add: Let_def)
    qed
  qed
qed

theorem lookup_failure_is_no_subscription_witness:
  "lookup_fails outage_world ''a@x.com''
   \<and> \<not> fst (check_user_has_subscription outage_world ''a@x.com'')
   \<and> status (response_of (chat outage_world hello Map.empty)) = 200
   \<and> usage_of (chat outage_world hello Map.empty) ''a@x.com:2025-03-09'' = Some 1"
proof -
  have h: "lookup_fails outage_world ''a@x.com''"
    by (simp add: lookup_fails_def outage_world_def)
  have e: "req_user_email hello = ''a@x.com''" "req_messages hello \<noteq> []"
    by (simp_all add: hello_def req_user_email_def req_messages_def)
  have k: "usage_key ''a@x.com'' (strftime_ymd (now outage_world)) = ''a@x.com:2025-03-09''"
    by (simp add: usage_key_def strftime_ymd_def digit_def outage_world_def free_world_def day1_def)
  from lookup_failure_is_no_subscription [OF h, of hello Map.empty] h e k
  show ?thesis
    by (simp add: Let_def usage_get_def response_of_def usage_of_def complete_def
         outage_world_def free_world_def chat_success_def status_def)
qed

subsection \<open>The quota is charged before the completion\<close>

text \<open>
  Claim C2. For a chat request with messages of a user who is not anonymous, has no
  subscription and is below the limit, the handler writes the incremented count to
  \<^verbatim>\<open>user_usage\<close> and only then calls the completion provider: the write is the effect
  just before the call. The stored count of the day is one higher afterwards
  whatever the completion does, and when the completion fails the answer is a 500.
\<close>

theorem failed_completion_consumes_quota:
  assumes "req_messages data \<noteq> []"
    and "\<not> fst (check_user_has_subscription w (req_user_email data))"
    and "req_user_email data \<noteq> ''anonymous''"
    and "k = usage_key (req_user_email data) (strftime_ymd (now w))"
    and "usage_get u k < 10"
  shows "effects_of (chat w data u) =
           snd (check_user_has_subscription w (req_user_email data))
             @ [UsageStore k (usage_get u k + 1),
                AnthropicCreate (req_max_tokens data) (req_system data) (req_messages data)]
     \<and> usage_get (usage_of (chat w data u)) k = usage_get u k + 1
     \<and> (completion_fails w data \<longrightarrow> status (response_of (chat w data u)) = 500)"
  using chat_metered_under [OF assms] complete_failure [of w data]
  by (simp add: effects_of_def usage_of_def response_of_def usage_get_def)

theorem failed_completion_consumes_quota_witness:
  "completion_fails failing_world hello
   \<and> status (response_of (chat failing_world hello Map.empty)) = 500
   \<and> usage_get (usage_of (chat failing_world hello Map.empty)) ''a@x.com:2025-03-09'' = 1"
proof -
  have w: "now failing_world = day1"
    "check_user_has_subscription failing_world ''a@x.com'' = (False, [StripeCustomerList ''a@x.com''])"
    by (simp_all add: failing_world_def free_world_def check_user_has_subscription_def)
  have f: "completion_fails failing_world hello"
    by (simp add: completion_fails_def failing_world_def)
  have "usage_get Map.empty ''a@x.com:2025-03-09'' < 10" by (simp add: usage_get_def)
  with failed_completion_consumes_quota [of hello failing_world "''a@x.com:2025-03-09''" Map.empty]
    f w sample_hello sample_keys
  show ?thesis by (simp add: usage_get_def)
qed

subsection \<open>Subscribers\<close>

text \<open>
  Claim C4. For a chat request of a user for whom the payment provider holds an active
  subscription, \<^verbatim>\<open>user_usage\<close> is left as it was and nothing is written to it. When the
  request has messages it is admitted: the completion provider is called and the value
  of \<^verbatim>\<open>remaining\<close> is \<^verbatim>\<open>'unlimited'\<close>, which a successful completion reports as
  \<^verbatim>\<open>remaining_messages\<close>.
\<close>

theorem subscriber_unlimited_and_uncharged:
  assumes "has_active_subscription w (req_user_email data)"
  shows "usage_of (chat w data u) = u
     \<and> \<not> list_ex is_usage_store (effects_of (chat w data u))
     \<and> (req_messages data \<noteq> [] \<longrightarrow>
          chat w data u =
            (complete w (req_max_tokens data) (req_system data) (req_messages data)
               (JStr ''unlimited''),
             u,
             snd (check_user_has_subscription w (req_user_email data))
               @ [AnthropicCreate (req_max_tokens data) (req_system data) (req_messages data)]))
     \<and> (\<forall>t ts. req_messages data \<noteq> [] \<and>
          messages_create w (req_max_tokens data) (req_system data) (req_messages data)
            = Message (t # ts) \<longrightarrow>
          response_of (chat w data u) = chat_success t (JStr ''unlimited'')
        \<and> status (response_of (chat w data u)) = 200
        \<and> field (response_of (chat w data u)) ''remaining_messages''
            = Some (JStr ''unlimited''))"
proof (cases "req_messages data = []")
  case True
  then show ?thesis by (simp add: chat_no_messages usage_of_def effects_of_def)
next
  case False
  have "fst (check_user_has_subscription w (req_user_email data))
        \<or> req_user_email data = ''anonymous''"
    using assms check_active by blast
  from chat_unmetered [OF False this, of u] False show ?thesis
    using check_effects_no_store [of w "req_user_email data"]
    by (simp add: usage_of_def effects_of_def response_of_def complete_success
          chat_success_fields)
qed

theorem subscriber_unlimited_and_uncharged_witness:
  "has_active_subscription subscribed_world (req_user_email hello)
   \<and> usage_of (chat subscribed_world hello Map.empty) = Map.empty
   \<and> response_of (chat subscribed_world hello Map.empty) = chat_success ''marhaban'' (JStr ''unlimited'')"
proof -
  have h: "has_active_subscription subscribed_world (req_user_email hello)"
    by (simp add: has_active_subscription_def subscribed_world_def sample_hello)
  have m: "messages_create subscribed_world (req_max_tokens hello) (req_system hello)
             (req_messages hello) = Message [''marhaban'']"
    by (simp add: subscribed_world_def free_world_def)
  from subscriber_unlimited_and_uncharged [OF h, of Map.empty] h m sample_hello
  show ?thesis by (simp add: usage_of_def response_of_def complete_def)
qed

subsection \<open>A body without user_email\<close>

text \<open>
  Claim C10. When the body of a chat request has no \<^verbatim>\<open>user_email\<close>, the user is
  \<^verbatim>\<open>'anonymous'\<close>. The handler then makes no call to the payment provider, does not
  write to \<^verbatim>\<open>user_usage\<close> and leaves it unchanged, never answers 429, and its response
  does not depend on \<^verbatim>\<open>user_usage\<close> at all. When the request has messages it is
  admitted: the only effect is the call to the completion provider.
\<close>

theorem omitted_email_is_anonymous:
  assumes "user_email data = None"
  shows "req_user_email data = ''anonymous''
     \<and> usage_of (chat w data u) = u
     \<and> \<not> list_ex is_stripe_call (effects_of (chat w data u))
     \<and> \<not> list_ex is_usage_store (effects_of (chat w data u))
     \<and> status (response_of (chat w data u)) \<noteq> 429
     \<and> (\<forall>u'. response_of (chat w data u') = response_of (chat w data u))
     \<and> (req_messages data \<noteq> [] \<longrightarrow>
          chat w data u =
            (complete w (req_max_tokens data) (req_system data) (req_messages data)
               (JStr ''unlimited''),
             u,
             [AnthropicCreate (req_max_tokens data) (req_system data) (req_messages data)]))"
proof -
  have e: "req_user_email data = ''anonymous''"
    using assms by (simp add: req_user_email_def)
  show ?thesis
  proof (cases "req_messages data = []")
    case True
    then show ?thesis
      using e by (simp add: chat_no_messages usage_of_def effects_of_def response_of_def
            no_messages_def status_def)
  next
    case False
    have c: "\<And>v. chat w data v =
            (complete w (req_max_tokens data) (req_system data) (req_messages data)
               (JStr ''unlimited''), v,
             [AnthropicCreate (req_max_tokens data) (req_system data) (req_messages data)])"
      using chat_unmetered [OF False, of w] e by (simp add: check_anonymous)
    have "status (complete w (req_max_tokens data) (req_system data) (req_messages data)
               (JStr ''unlimited'')) \<noteq> 429"
      using complete_status [of w "req_max_tokens data" "req_system data" "req_messages data" "JStr ''unlimited''"]
      by auto
    then show ?thesis
      using e by (simp add: c usage_of_def effects_of_def response_of_def)
  qed
qed

theorem omitted_email_is_anonymous_witness:
  "user_email hello_no_email = None
   \<and> chat free_world hello_no_email Map.empty =
       (chat_success ''marhaban'' (JStr ''unlimited''), Map.empty,
        [AnthropicCreate 1024 [] [(''user'', ''salam'')]])"
proof -
  have h: "user_email hello_no_email = None" by (simp add: hello_no_email_def)
  have r: "req_messages hello_no_email = [(''user'', ''salam'')]"
    "req_system hello_no_email = []" "req_max_tokens hello_no_email = 1024"
    by (simp_all add: hello_no_email_def hello_def req_messages_def req_system_def
          req_max_tokens_def)
  from omitted_email_is_anonymous [OF h, of free_world Map.empty] h r
  show ?thesis by (simp add: complete_def free_world_def)
qed

subsection \<open>What an anonymous user is told\<close>

text \<open>
  Claim C3 says that the response to an anonymous chat request does not report
  \<^verbatim>\<open>remaining = "unlimited"\<close>. The handler does report it: the \<^verbatim>\<open>else\<close> branch of
  line 160 serves both subscribers and anonymous users, and line 180 puts its value into
  the response. The sample anonymous request in the sample world is answered with
  \<^verbatim>\<open>remaining_messages = "unlimited"\<close>.
\<close>

theorem anonymous_remaining_counterexample:
  "field (response_of (chat free_world hello_anonymous Map.empty)) ''remaining_messages''
     = Some (JStr ''unlimited'')"
proof -
  have r: "req_messages hello_anonymous = [(''user'', ''salam'')]"
    "req_user_email hello_anonymous = ''anonymous''"
    by (simp_all add: hello_anonymous_def hello_def req_messages_def req_user_email_def)
  have "req_messages hello_anonymous \<noteq> []" by (simp add: r)
  from chat_unmetered [OF this, of free_world Map.empty] r
  show ?thesis
    by (simp add: response_of_def complete_def free_world_def chat_success_def field_def body_def)
qed

text \<open>
  Claim C3, amended. For a chat request with messages whose user is \<^verbatim>\<open>'anonymous'\<close>,
  the handler skips counting: \<^verbatim>\<open>user_usage\<close> is unchanged and the only effect is the call
  to the completion provider. A successful completion reports
  \<^verbatim>\<open>remaining_messages = "unlimited"\<close>, and no response reports a number there.
\<close>

theorem anonymous_unmetered_reports_unlimited:
  assumes "req_user_email data = ''anonymous''" and "req_messages data \<noteq> []"
  shows "chat w data u =
            (complete w (req_max_tokens data) (req_system data) (req_messages data)
               (JStr ''unlimited''),
             u,
             [AnthropicCreate (req_max_tokens data) (req_system data) (req_messages data)])
     \<and> (\<forall>t ts. messages_create w (req_max_tokens data) (req_system data) (req_messages data)
            = Message (t # ts) \<longrightarrow>
          response_of (chat w data u) = chat_success t (JStr ''unlimited'')
        \<and> status (response_of (chat w data u)) = 200
        \<and> field (response_of (chat w data u)) ''remaining_messages''
            = Some (JStr ''unlimited''))
     \<and> (\<forall>n. field (response_of (chat w data u)) ''remaining_messages'' \<noteq> Some (JInt n))"
proof -
  have c: "chat w data u =
            (complete w (req_max_tokens data) (req_system data) (req_messages data)
               (JStr ''unlimited''), u,
             [AnthropicCreate (req_max_tokens data) (req_system data) (req_messages data)])"
    using chat_unmetered [OF assms(2), of w u] assms(1) by (simp add: check_anonymous)
  have "\<And>n. field (complete w (req_max_tokens data) (req_system data) (req_messages data)
               (JStr ''unlimited'')) ''remaining_messages'' \<noteq> Some (JInt n)"
    using complete_remaining by fastforce
  then show ?thesis
    by (simp add: c response_of_def complete_success chat_success_fields)
qed

theorem anonymous_unmetered_reports_unlimited_witness:
  "req_user_email hello_anonymous = ''anonymous'' \<and> req_messages hello_anonymous \<noteq> []
   \<and> response_of (chat free_world hello_anonymous Map.empty)
       = chat_success ''marhaban'' (JStr ''unlimited'')"
proof -
  have r: "req_user_email hello_anonymous = ''anonymous''" "req_messages hello_anonymous \<noteq> []"
    by (simp_all add: hello_anonymous_def hello_def req_messages_def req_user_email_def)
  have m: "messages_create free_world (req_max_tokens hello_anonymous) (req_system hello_anonymous)
             (req_messages hello_anonymous) = Message [''marhaban'']"
    by (simp add: free_world_def)
  from anonymous_unmetered_reports_unlimited [OF r, of free_world Map.empty] r m
  show ?thesis by (simp add: response_of_def complete_def)
qed

subsection \<open>The daily limit\<close>

text \<open>
  Claim C1. The process starts with an empty \<^verbatim>\<open>user_usage\<close> and has served the chat
  requests \<open>earlier\<close>, of any users on any days. Take a chat request with messages of a
  user who is not anonymous and has no subscription, and let it be the \<open>N\<close>-th such
  request of that user on that day. If \<open>N \<le> 10\<close> the request is admitted: the count
  \<open>N\<close> is stored, the completion provider is called, the value of \<^verbatim>\<open>remaining\<close> is
  \<open>10 - N\<close>, and when the completion succeeds the response has status 200 and its
  field \<^verbatim>\<open>remaining_messages\<close> is \<open>10 - N\<close>.
  If \<open>N > 10\<close> the request is rejected with status 429 and
  \<^verbatim>\<open>remaining_messages = 0\<close>, \<^verbatim>\<open>user_usage\<close> is unchanged and the completion provider is
  not called.
\<close>

theorem nth_free_request:
  assumes "metered e (strftime_ymd d) (w, data)"
    and "N = Suc (length (filter (metered e (strftime_ymd d)) earlier))"
    and "u = snd (serve Map.empty earlier)"
    and "k = usage_key e (strftime_ymd d)"
  shows "(N \<le> 10 \<longrightarrow>
            usage_of (chat w data u) = u(k \<mapsto> int N)
          \<and> effects_of (chat w data u) =
              snd (check_user_has_subscription w e)
                @ [UsageStore k (int N),
                   AnthropicCreate (req_max_tokens data) (req_system data) (req_messages data)]
          \<and> response_of (chat w data u) =
              complete w (req_max_tokens data) (req_system data) (req_messages data)
                (JInt (10 - int N))
          \<and> (\<forall>t ts. messages_create w (req_max_tokens data) (req_system data)
                        (req_messages data) = Message (t # ts) \<longrightarrow>
                response_of (chat w data u) = chat_success t (JInt (10 - int N))
              \<and> status (response_of (chat w data u)) = 200
              \<and> field (response_of (chat w data u)) ''remaining_messages''
                  = Some (JInt (10 - int N))
              \<and> field (response_of (chat w data u)) ''success'' = Some (JBool True)))
       \<and> (10 < N \<longrightarrow>
            response_of (chat w data u) = limit_reached
          \<and> status (response_of (chat w data u)) = 429
          \<and> field (response_of (chat w data u)) ''remaining_messages'' = Some (JInt 0)
          \<and> usage_of (chat w data u) = u
          \<and> \<not> list_ex is_completion_call (effects_of (chat w data u)))"
proof -
  from assms(1) have m: "req_messages data \<noteq> []" and e: "req_user_email data = e"
    and a: "e \<noteq> ''anonymous''" and t: "strftime_ymd (now w) = strftime_ymd d"
    and c: "\<not> fst (check_user_has_subscription w e)"
    by (simp_all add: metered_def)
  have "usage_get Map.empty k \<le> 10" by (simp add: usage_get_def)
  from serve_count [of Map.empty e d earlier] this
  have cnt: "usage_get u k = min 10 (int (length (filter (metered e (strftime_ymd d)) earlier)))"
    by (simp add: assms(3,4) usage_get_def)
  have k: "k = usage_key (req_user_email data) (strftime_ymd (now w))"
    by (simp add: assms(4) e t)
  show ?thesis
  proof (intro conjI impI)
    assume "N \<le> 10"
    then have u: "usage_get u k < 10" and n: "usage_get u k + 1 = int N"
      using cnt assms(2) by simp_all
    from chat_metered_under [OF m _ _ k u] c a e
    have ch: "chat w data u =
       (complete w (req_max_tokens data) (req_system data) (req_messages data)
          (JInt (10 - int N)),
        u(k \<mapsto> int N),
        snd (check_user_has_subscription w e)
          @ [UsageStore k (int N),
             AnthropicCreate (req_max_tokens data) (req_system data) (req_messages data)])"
      by (simp add: n)
    show "usage_of (chat w data u) = u(k \<mapsto> int N)"
      by (simp add: ch usage_of_def)
    show "effects_of (chat w data u) =
              snd (check_user_has_subscription w e)
                @ [UsageStore k (int N),
                   AnthropicCreate (req_max_tokens data) (req_system data) (req_messages data)]"
      by (simp add: ch effects_of_def)
    show "response_of (chat w data u) =
              complete w (req_max_tokens data) (req_system data) (req_messages data)
                (JInt (10 - int N))"
      by (simp add: ch response_of_def)
    show "\<forall>t ts. messages_create w (req_max_tokens data) (req_system data)
                        (req_messages data) = Message (t # ts) \<longrightarrow>
                response_of (chat w data u) = chat_success t (JInt (10 - int N))
              \<and> status (response_of (chat w data u)) = 200
              \<and> field (response_of (chat w data u)) ''remaining_messages''
                  = Some (JInt (10 - int N))
              \<and> field (response_of (chat w data u)) ''success'' = Some (JBool True)"
      by (simp add: ch response_of_def complete_success chat_success_fields)
  next
    assume "10 < N"
    then have u: "10 \<le> usage_get u k"
      using cnt assms(2) by simp
    from chat_metered_over [OF m _ _ k u] c a e
    have ch: "chat w data u = (limit_reached, u, snd (check_user_has_subscription w e))"
      by simp
    show "response_of (chat w data u) = limit_reached"
      by (simp add: ch response_of_def)
    show "status (response_of (chat w data u)) = 429"
      by (simp add: ch response_of_def limit_reached_fields)
    show "field (response_of (chat w data u)) ''remaining_messages'' = Some (JInt 0)"
      by (simp add: ch response_of_def limit_reached_fields)
    show "usage_of (chat w data u) = u"
      by (simp add: ch usage_of_def)
    show "\<not> list_ex is_completion_call (effects_of (chat w data u))"
      using check_effects_no_completion [of w e] by (simp add: ch effects_of_def)
  qed
qed

theorem nth_free_request_witness:
  "metered ''a@x.com'' (strftime_ymd day1) (free_world, hello)
   \<and> status (response_of (chat free_world hello (snd (serve Map.empty [])))) = 200
   \<and> field (response_of (chat free_world hello (snd (serve Map.empty []))))
         ''remaining_messages'' = Some (JInt 9)
   \<and> status (response_of (chat free_world hello
        (snd (serve Map.empty (replicate 9 (free_world, hello)))))) = 200
   \<and> field (response_of (chat free_world hello
        (snd (serve Map.empty (replicate 9 (free_world, hello))))))
         ''remaining_messages'' = Some (JInt 0)
   \<and> status (response_of (chat free_world hello
        (snd (serve Map.empty (replicate 10 (free_world, hello)))))) = 429
   \<and> field (response_of (chat free_world hello
        (snd (serve Map.empty (replicate 10 (free_world, hello))))))
         ''remaining_messages'' = Some (JInt 0)"
proof -
  note m = sample_metered(1)
  have c: "messages_create free_world (req_max_tokens hello) (req_system hello)
             (req_messages hello) = Message [''marhaban'']"
    by (simp add: free_world_def)
  have n1: "1 = Suc (length (filter (metered ''a@x.com'' (strftime_ymd day1)) []))"
    by simp
  have n10: "10 = Suc (length (filter (metered ''a@x.com'' (strftime_ymd day1))
                                 (replicate 9 (free_world, hello))))"
    using m by simp
  have n11: "11 = Suc (length (filter (metered ''a@x.com'' (strftime_ymd day1))
                                 (replicate 10 (free_world, hello))))"
    using m by simp
  have first:
    "status (response_of (chat free_world hello (snd (serve Map.empty [])))) = 200
     \<and> field (response_of (chat free_world hello (snd (serve Map.empty []))))
           ''remaining_messages'' = Some (JInt 9)"
    using nth_free_request [OF m n1 refl refl]
    by (simp add: complete_success [OF c] chat_success_fields)
  have tenth:
    "status (response_of (chat free_world hello
        (snd (serve Map.empty (replicate 9 (free_world, hello)))))) = 200
     \<and> field (response_of (chat free_world hello
        (snd (serve Map.empty (replicate 9 (free_world, hello))))))
         ''remaining_messages'' = Some (JInt 0)"
    using nth_free_request [OF m n10 refl refl]
    by (simp add: complete_success [OF c] chat_success_fields)
  have eleventh:
    "status (response_of (chat free_world hello
        (snd (serve Map.empty (replicate 10 (free_world, hello)))))) = 429
     \<and> field (response_of (chat free_world hello
        (snd (serve Map.empty (replicate 10 (free_world, hello))))))
         ''remaining_messages'' = Some (JInt 0)"
    using nth_free_request [OF m n11 refl refl] by (simp add: limit_reached_fields)
  show ?thesis using m first tenth eleventh by simp
qed

subsection \<open>The count of a new day\<close>

text \<open>
  Claim C7. The process starts with an empty \<^verbatim>\<open>user_usage\<close> and has served the chat
  requests \<open>earlier\<close>, by which a user has reached the limit on day \<open>d\<close>. Then a chat
  request with messages of that user without subscription on a day \<open>d'\<close> on which the
  user has not been counted yet is on another day and under another key; it finds no
  entry and so reads the count 0, is admitted, stores the count 1 and carries
  \<^verbatim>\<open>remaining = 9\<close>, which a successful completion reports; the count of day \<open>d\<close> stays.
  The key of a user and a date determines both.
\<close>

theorem fresh_day_fresh_count:
  assumes "u = snd (serve Map.empty earlier)"
    and "10 \<le> usage_get u (usage_key e (strftime_ymd d))"
    and "filter (metered e (strftime_ymd d')) earlier = []"
    and "metered e (strftime_ymd d') (w, data)"
    and "k' = usage_key e (strftime_ymd d')"
  shows "d' \<noteq> d \<and> k' \<noteq> usage_key e (strftime_ymd d)
       \<and> u k' = None \<and> usage_get u k' = 0
       \<and> usage_of (chat w data u) = u(k' \<mapsto> 1)
       \<and> response_of (chat w data u) =
           complete w (req_max_tokens data) (req_system data) (req_messages data) (JInt 9)
       \<and> (\<forall>t ts. messages_create w (req_max_tokens data) (req_system data)
                     (req_messages data) = Message (t # ts) \<longrightarrow>
             response_of (chat w data u) = chat_success t (JInt 9)
           \<and> status (response_of (chat w data u)) = 200
           \<and> field (response_of (chat w data u)) ''remaining_messages'' = Some (JInt 9))
       \<and> list_ex is_completion_call (effects_of (chat w data u))
       \<and> usage_get (usage_of (chat w data u)) (usage_key e (strftime_ymd d))
           = usage_get u (usage_key e (strftime_ymd d))
       \<and> (\<forall>e1 e2 d1 d2. valid_date d1 \<and> valid_date d2 \<longrightarrow>
             (usage_key e1 (strftime_ymd d1) = usage_key e2 (strftime_ymd d2)
                \<longleftrightarrow> e1 = e2 \<and> d1 = d2))"
proof -
  from assms(4) have m: "req_messages data \<noteq> []" and e: "req_user_email data = e"
    and a: "e \<noteq> ''anonymous''" and t: "strftime_ymd (now w) = strftime_ymd d'"
    and c: "\<not> fst (check_user_has_subscription w e)"
    by (simp_all add: metered_def)
  have none: "u k' = None"
    using serve_entry_frame [OF assms(3), of Map.empty] by (simp add: assms(1,5))
  then have zero: "usage_get u k' = 0" by (simp add: usage_get_def)
  have kne: "k' \<noteq> usage_key e (strftime_ymd d)"
    using zero assms(2) by auto
  then have sne: "strftime_ymd d' \<noteq> strftime_ymd d"
    by (auto simp: assms(5))
  then have dne: "d' \<noteq> d" by auto
  have k: "k' = usage_key (req_user_email data) (strftime_ymd (now w))"
    by (simp add: assms(5) e t)
  have lt: "usage_get u k' < 10" by (simp add: zero)
  from chat_metered_under [OF m _ _ k lt] c a e
  have ch: "chat w data u =
       (complete w (req_max_tokens data) (req_system data) (req_messages data) (JInt 9),
        u(k' \<mapsto> 1),
        snd (check_user_has_subscription w e)
          @ [UsageStore k' 1,
             AnthropicCreate (req_max_tokens data) (req_system data) (req_messages data)])"
    by (simp add: zero)
  have old: "usage_get (usage_of (chat w data u)) (usage_key e (strftime_ymd d))
           = usage_get u (usage_key e (strftime_ymd d))"
    using kne by (simp add: ch usage_of_def usage_get_def)
  have keys: "\<forall>e1 e2 d1 d2. valid_date d1 \<and> valid_date d2 \<longrightarrow>
             (usage_key e1 (strftime_ymd d1) = usage_key e2 (strftime_ymd d2)
                \<longleftrightarrow> e1 = e2 \<and> d1 = d2)"
    using usage_key_date_eq_iff by blast
  show ?thesis
    using dne kne none zero old keys
    by (simp add: ch usage_of_def response_of_def effects_of_def complete_success
          chat_success_fields)
qed

theorem fresh_day_fresh_count_witness:
  "10 \<le> usage_get (snd (serve Map.empty (replicate 10 (free_world, hello))))
            (usage_key ''a@x.com'' (strftime_ymd day1))
   \<and> metered ''a@x.com'' (strftime_ymd day2) (next_day_world, hello)
   \<and> response_of (chat next_day_world hello
         (snd (serve Map.empty (replicate 10 (free_world, hello)))))
       = chat_success ''marhaban'' (JInt 9)
   \<and> valid_date day1 \<and> valid_date day2
   \<and> usage_key ''a@x.com'' (strftime_ymd day1) \<noteq> usage_key ''a@x.com'' (strftime_ymd day2)"
proof -
  let ?run = "replicate 10 (free_world, hello)"
  have "usage_get Map.empty (usage_key ''a@x.com'' (strftime_ymd day1)) \<le> 10"
    by (simp add: usage_get_def)
  from serve_count [OF this, of ?run]
  have full: "10 \<le> usage_get (snd (serve Map.empty ?run))
                      (usage_key ''a@x.com'' (strftime_ymd day1))"
    by (simp add: sample_metered(1) usage_get_def)
  have none: "filter (metered ''a@x.com'' (strftime_ymd day2)) ?run = []"
    by (simp add: sample_metered(3))
  have c: "messages_create next_day_world (req_max_tokens hello) (req_system hello)
             (req_messages hello) = Message [''marhaban'']"
    by (simp add: next_day_world_def free_world_def)
  have v: "valid_date day1" "valid_date day2"
    by (simp_all add: valid_date_def day1_def day2_def)
  note t = fresh_day_fresh_count [OF refl full none sample_metered(2) refl]
  from t c have "response_of (chat next_day_world hello (snd (serve Map.empty ?run)))
       = chat_success ''marhaban'' (JInt 9)"
    by blast
  moreover from t v have
    "usage_key ''a@x.com'' (strftime_ymd day1) \<noteq> usage_key ''a@x.com'' (strftime_ymd day2)"
    by (simp add: day1_def day2_def)
  ultimately show ?thesis using full sample_metered(2) v by simp
qed

subsection \<open>Anonymous users along a run\<close>

text \<open>
  Claim C5. In a run of chat requests from any dictionary, an anonymous request is never
  answered with 429 and writes nothing to \<^verbatim>\<open>user_usage\<close>; the entries under the keys of
  \<^verbatim>\<open>'anonymous'\<close>, for every day, are after the run what they were before it (none is
  created, none is incremented), whoever else is served in between; and a run of
  anonymous requests only leaves the whole dictionary unchanged.
\<close>

theorem anonymous_never_charged:
  "(\<forall>i < length rs. req_user_email (snd (rs ! i)) = ''anonymous'' \<longrightarrow>
       status (fst (fst (serve u rs) ! i)) \<noteq> 429
     \<and> \<not> list_ex is_usage_store (snd (fst (serve u rs) ! i)))
   \<and> (\<forall>d. snd (serve u rs) (usage_key ''anonymous'' (strftime_ymd d))
           = u (usage_key ''anonymous'' (strftime_ymd d)))
   \<and> ((\<forall>x \<in> set rs. req_user_email (snd x) = ''anonymous'') \<longrightarrow> snd (serve u rs) = u)"
proof (intro conjI allI impI)
  fix i
  assume i: "i < length rs" and a: "req_user_email (snd (rs ! i)) = ''anonymous''"
  from serve_nth [OF i, of u] obtain u' where
    n: "fst (serve u rs) ! i =
            (response_of (chat (fst (rs ! i)) (snd (rs ! i)) u'),
             effects_of (chat (fst (rs ! i)) (snd (rs ! i)) u'))" by blast
  show "status (fst (fst (serve u rs) ! i)) \<noteq> 429"
    using chat_anonymous(2) [OF a] by (simp add: n)
  show "\<not> list_ex is_usage_store (snd (fst (serve u rs) ! i))"
    using chat_anonymous(3) [OF a] by (simp add: n)
next
  fix d
  have "filter (metered ''anonymous'' (strftime_ymd d)) rs = []"
    by (simp add: not_metered_anonymous)
  then show "snd (serve u rs) (usage_key ''anonymous'' (strftime_ymd d))
           = u (usage_key ''anonymous'' (strftime_ymd d))"
    by (rule serve_entry_frame)
next
  assume "\<forall>x \<in> set rs. req_user_email (snd x) = ''anonymous''"
  then show "snd (serve u rs) = u"
  proof (induction rs)
    case Nil
    then show ?case by simp
  next
    case (Cons x rs)
    obtain w data where x: "x = (w, data)" by (cases x)
    from Cons.prems have a: "req_user_email data = ''anonymous''" by (simp add: x)
    from Cons show ?case
      by (simp add: x serve_Cons chat_anonymous(1) [OF a] del: serve.simps)
  qed
qed

theorem anonymous_never_charged_witness:
  "req_user_email hello_anonymous = ''anonymous''
   \<and> snd (serve Map.empty (replicate 12 (free_world, hello_anonymous))) = Map.empty
   \<and> status (fst (fst (serve Map.empty (replicate 12 (free_world, hello_anonymous))) ! 11))
        \<noteq> 429"
proof -
  have a: "req_user_email hello_anonymous = ''anonymous''"
    by (simp add: hello_anonymous_def hello_def req_user_email_def)
  then have all: "\<forall>x \<in> set (replicate 12 (free_world, hello_anonymous)).
       req_user_email (snd x) = ''anonymous''" by simp
  note t = anonymous_never_charged [of "replicate 12 (free_world, hello_anonymous)" Map.empty]
  from t all have "snd (serve Map.empty (replicate 12 (free_world, hello_anonymous))) = Map.empty"
    by blast
  moreover from t a have
    "status (fst (fst (serve Map.empty (replicate 12 (free_world, hello_anonymous))) ! 11))
        \<noteq> 429"
    by simp
  ultimately show ?thesis using a by simp
qed

subsection \<open>The subscription check of a customer without subscription\<close>

text \<open>
  Claim C9. For an email that is a customer of the payment provider without an active
  subscription, \<^verbatim>\<open>check_subscription\<close> answers \<^verbatim>\<open>remaining_messages = 0\<close> whatever
  \<^verbatim>\<open>user_usage\<close> holds. The answer computed from the usage of the day, ten minus the
  count and at least zero, is given exactly when the provider knows no customer for the
  email.
\<close>

theorem lapsed_customer_gets_zero:
  assumes "sr_email data = Some email" and "email \<noteq> []"
    and "customer_list w email = Inr (c # cs)"
    and "subscription_list w (customer_id c) = Inr []"
  shows "check_subscription w data u =
           (([(''has_subscription'', JBool False), (''subscription_status'', JNull),
              (''remaining_messages'', JInt 0)], 200),
            [StripeCustomerList email, StripeSubscriptionList (customer_id c)])
       \<and> field (fst (check_subscription w data u)) ''remaining_messages'' = Some (JInt 0)
       \<and> (\<forall>w' u'. fst (check_subscription w' data u') = free_allowance w' email u'
                     \<longleftrightarrow> customer_list w' email = Inr [])
       \<and> (\<forall>w' u'. customer_list w' email = Inr [] \<longrightarrow>
             field (fst (check_subscription w' data u')) ''remaining_messages''
               = Some (JInt (max 0 (10 - usage_get u' (usage_key email (strftime_ymd (now w')))))))"
proof -
  have nf: "\<not> falsy (sr_email data)" using assms(1,2) by (simp add: falsy_def)
  have 1: "check_subscription w data u =
           (([(''has_subscription'', JBool False), (''subscription_status'', JNull),
              (''remaining_messages'', JInt 0)], 200),
            [StripeCustomerList email, StripeSubscriptionList (customer_id c)])"
    using nf assms by (simp add: check_subscription_def)
  have 2: "fst (check_subscription w' data u') = free_allowance w' email u'
             \<longleftrightarrow> customer_list w' email = Inr []" for w' u'
    using nf assms(1)
    by (auto simp: check_subscription_def free_allowance_def Let_def
             split: sum.splits list.splits)
  have 3: "customer_list w' email = Inr [] \<Longrightarrow>
             field (fst (check_subscription w' data u')) ''remaining_messages''
               = Some (JInt (max 0 (10 - usage_get u' (usage_key email (strftime_ymd (now w'))))))"
    for w' u'
    using nf assms(1)
    by (simp add: check_subscription_def free_allowance_def Let_def field_def body_def)
  show ?thesis using 1 2 3 by (simp add: field_def body_def)
qed


theorem lapsed_customer_gets_zero_witness:
  "sr_email ask = Some ''a@x.com''
   \<and> customer_list lapsed_world ''a@x.com'' = Inr [Customer ''cus_1'']
   \<and> subscription_list lapsed_world (customer_id (Customer ''cus_1'')) = Inr []
   \<and> field (fst (check_subscription lapsed_world ask three_used)) ''remaining_messages''
       = Some (JInt 0)
   \<and> field (fst (check_subscription free_world ask three_used)) ''remaining_messages''
       = Some (JInt 7)"
proof -
  have a: "sr_email ask = Some ''a@x.com''" by (simp add: ask_def)
  have n: "''a@x.com'' \<noteq> []" by simp
  have c: "customer_list lapsed_world ''a@x.com'' = Inr [Customer ''cus_1'']"
    by (simp add: lapsed_world_def)
  have s: "subscription_list lapsed_world (customer_id (Customer ''cus_1'')) = Inr []"
    by (simp add: lapsed_world_def free_world_def)
  have f: "customer_list free_world ''a@x.com'' = Inr []" "now free_world = day1"
    by (simp_all add: free_world_def)
  have u: "usage_get three_used ''a@x.com:2025-03-09'' = 3"
    by (simp add: usage_get_def three_used_def)
  note t = lapsed_customer_gets_zero [OF a n c s, of three_used]
  from t have "field (fst (check_subscription lapsed_world ask three_used))
                 ''remaining_messages'' = Some (JInt 0)"
    by blast
  moreover from t f have "field (fst (check_subscription free_world ask three_used))
                 ''remaining_messages'' = Some (JInt 7)"
    by (simp add: sample_keys u)
  ultimately show ?thesis using a c s by simp
qed

end
